theory Spec2Isabelle
  imports Main
begin

section \<open>Data model of the redirect server\<close>

text \<open>
  The development follows \<^verbatim>\<open>main.go\<close>. Everything the program itself decides is
  a definition below. What it leaves to its libraries appears in one of two ways:
  \<^item> a library call whose result the program consumes (\<^verbatim>\<open>yaml.Unmarshal\<close>,
    \<^verbatim>\<open>json.Unmarshal\<close>, \<^verbatim>\<open>ioutil.ReadFile\<close>, flag parsing) is a parameter of the
    definition that makes the call;
  \<^item> a library call that ends the handling of a request (\<^verbatim>\<open>http.Redirect\<close>,
    \<^verbatim>\<open>fmt.Fprintln\<close> on the response writer) is a constructor of the response type,
    carrying the arguments of the call.
  The request multiplexer is a library object too: the program builds its table of
  patterns, and what the multiplexer does with a request that reaches it
  (\<^verbatim>\<open>(*http.ServeMux).ServeHTTP\<close>) is a parameter of \<open>main\<close>. The theorems hold for
  every such dispatch; the sample inputs below include one that follows \<^verbatim>\<open>net/http\<close>.
\<close>

text \<open>A byte slice. Where the program tests a slice against \<^verbatim>\<open>nil\<close> the slice is a
  \<open>bytes option\<close>, and \<open>None\<close> is the nil slice: \<open>Some []\<close> is an empty slice that is not
  nil, which is what reading an empty file gives.\<close>

type_synonym bytes = string

text \<open>A Go \<^verbatim>\<open>error\<close> value, by its message.\<close>

datatype error = Error string

record Config =
  PathToYAML :: string
  PathToJSON :: string

record URLMapper =
  Path :: string
  URL :: string

text \<open>The fields of \<^verbatim>\<open>*http.Request\<close> a handler could look at; \<open>URLPath\<close> is
  \<^verbatim>\<open>r.URL.Path\<close>, the only one the program reads.\<close>

record Request =
  Method :: string
  Host :: string
  URLPath :: string
  RawQuery :: string

text \<open>What a handler does with its response writer: \<open>Redirect url code\<close> is the call
  \<^verbatim>\<open>http.Redirect(w, r, url, code)\<close>, \<open>Write text\<close> writes \<open>text\<close> as the body without
  setting a status first, \<open>NotFound\<close> is the reply of a multiplexer with no pattern for
  the request. Two responses are equal when they are the same call with the same
  arguments; what the library makes of the request that accompanies the call (the
  body it adds to a redirect, for one) is not part of a response.\<close>

datatype Response = Redirect string nat | Write string | NotFound

type_synonym Handler = "Request \<Rightarrow> Response"


text \<open>\<^verbatim>\<open>yaml.Unmarshal(data, &mappers)\<close> and \<^verbatim>\<open>json.Unmarshal(data, &mappers)\<close>: the slice
  as the decoder leaves it (possibly filled in part when it fails) and the error, if
  any.\<close>

type_synonym Unmarshal = "bytes \<Rightarrow> URLMapper list \<times> error option"

text \<open>A computation that may panic.\<close>

datatype 'a run = Panic error | Return 'a

section \<open>Handlers\<close>

text \<open>The body of the closure that \<^verbatim>\<open>YAMLHandler\<close> and \<^verbatim>\<open>JSONHandler\<close> return (the two
  copies in the source are the same text): range over the mappers, redirect and return
  at the first one whose path is the request's, call the fallback after the loop.\<close>

fun serveMappers :: "URLMapper list \<Rightarrow> Handler \<Rightarrow> Handler" where
  "serveMappers [] fallback r = fallback r"
| "serveMappers (mapper # mappers) fallback r =
     (if Path mapper = URLPath r then Redirect (URL mapper) 301
      else serveMappers mappers fallback r)"

definition YAMLHandler :: "Unmarshal \<Rightarrow> bytes \<Rightarrow> Handler \<Rightarrow> error + Handler" where
  "YAMLHandler yamlUnmarshal YAML fallback =
     (case yamlUnmarshal YAML of
        (mappers, Some err) \<Rightarrow> Inl err
      | (mappers, None) \<Rightarrow> Inr (serveMappers mappers fallback))"

definition JSONHandler :: "Unmarshal \<Rightarrow> bytes \<Rightarrow> Handler \<Rightarrow> error + Handler" where
  "JSONHandler jsonUnmarshal JSON fallback =
     (case jsonUnmarshal JSON of
        (mappers, Some err) \<Rightarrow> Inl err
      | (mappers, None) \<Rightarrow> Inr (serveMappers mappers fallback))"

definition MapHandler :: "(string \<rightharpoonup> string) \<Rightarrow> Handler \<Rightarrow> Handler" where
  "MapHandler pathsToUrls fallback r =
     (case pathsToUrls (URLPath r) of
        Some originalURL \<Rightarrow> Redirect originalURL 301
      | None \<Rightarrow> fallback r)"

section \<open>Startup\<close>

definition getFileBytes :: "(string \<Rightarrow> error + bytes) \<Rightarrow> string \<Rightarrow> bytes option" where
  "getFileBytes ReadFile pathToFile =
     (case ReadFile pathToFile of Inl err \<Rightarrow> None | Inr bytes \<Rightarrow> Some bytes)"

text \<open>\<^verbatim>\<open>fmt.Fprintln(w, a)\<close>: the text and a newline.\<close>

definition Fprintln :: "string \<Rightarrow> Response" where
  "Fprintln a = Write (a @ [CHR 0x0A])"

definition helloWorldHandler :: Handler where
  "helloWorldHandler r = Fprintln ''Hello, world!''"

text \<open>A \<^verbatim>\<open>ServeMux\<close> is its table of patterns, and \<open>Dispatch\<close> is the type of the
  library's \<^verbatim>\<open>(*http.ServeMux).ServeHTTP\<close>: the handler a table gives rise to.\<close>

type_synonym ServeMux = "(string \<times> Handler) list"

definition NewServeMux :: ServeMux where
  "NewServeMux = []"

definition HandleFunc :: "ServeMux \<Rightarrow> string \<Rightarrow> Handler \<Rightarrow> ServeMux" where
  "HandleFunc mux pattern handler = (pattern, handler) # mux"

type_synonym Dispatch = "ServeMux \<Rightarrow> Handler"

definition makeDefaultMux :: ServeMux where
  "makeDefaultMux = HandleFunc NewServeMux ''/'' helloWorldHandler"

text \<open>The multiplexer is the fallback of the map handler: a miss calls
  \<^verbatim>\<open>mux.ServeHTTP(w, r)\<close>.\<close>

definition makeMapHandler :: "Dispatch \<Rightarrow> ServeMux \<Rightarrow> Handler" where
  "makeMapHandler ServeHTTP mux =
     MapHandler
       [''/urlshort-godoc'' \<mapsto> ''https://godoc.org/github.com/gophercises/urlshort'',
        ''/yaml-godoc'' \<mapsto> ''https://godoc.org/gopkg.in/yaml.v2'']
       (ServeHTTP mux)"

definition makeYAMLHandler :: "Unmarshal \<Rightarrow> bytes \<Rightarrow> Handler \<Rightarrow> Handler run" where
  "makeYAMLHandler yamlUnmarshal yamlBytes fallbackHandler =
     (case YAMLHandler yamlUnmarshal yamlBytes fallbackHandler of
        Inl err \<Rightarrow> Panic err
      | Inr handler \<Rightarrow> Return handler)"

definition makeJSONHandler :: "Unmarshal \<Rightarrow> bytes \<Rightarrow> Handler \<Rightarrow> Handler run" where
  "makeJSONHandler jsonUnmarshal jsonBytes fallbackHandler =
     (case JSONHandler jsonUnmarshal jsonBytes fallbackHandler of
        Inl err \<Rightarrow> Panic err
      | Inr handler \<Rightarrow> Return handler)"

text \<open>\<^verbatim>\<open>http.ListenAndServe(addr, handler)\<close>: the server that is started.\<close>

datatype Server = ListenAndServe string Handler

definition startServer :: "Handler \<Rightarrow> Server" where
  "startServer handler = ListenAndServe '':8080'' handler"

text \<open>\<^verbatim>\<open>main\<close>, with the parsed flags, the file system, the two decoders and the
  dispatch of the multiplexer as parameters. A panic in \<^verbatim>\<open>makeYAMLHandler\<close> or \<^verbatim>\<open>makeJSONHandler\<close> ends the process
  before \<^verbatim>\<open>startServer\<close> is reached.\<close>

definition main ::
  "(string \<Rightarrow> error + bytes) \<Rightarrow> Unmarshal \<Rightarrow> Unmarshal \<Rightarrow> Dispatch \<Rightarrow> Config \<Rightarrow> Server run" where
  "main ReadFile yamlUnmarshal jsonUnmarshal ServeHTTP config =
     (let yamlBytes = getFileBytes ReadFile (PathToYAML config);
          jsonBytes = getFileBytes ReadFile (PathToJSON config);
          mux = makeDefaultMux;
          mapHandler = makeMapHandler ServeHTTP mux
      in case yamlBytes of
           Some yaml \<Rightarrow>
             (case makeYAMLHandler yamlUnmarshal yaml mapHandler of
                Panic err \<Rightarrow> Panic err
              | Return handler \<Rightarrow> Return (startServer handler))
         | None \<Rightarrow>
             (case jsonBytes of
                Some json \<Rightarrow>
                  (case makeJSONHandler jsonUnmarshal json mapHandler of
                     Panic err \<Rightarrow> Panic err
                   | Return handler \<Rightarrow> Return (startServer handler))
              | None \<Rightarrow> Return (startServer mapHandler)))"

text \<open>The reply of the running process to a request: none when startup panicked.\<close>

fun reply :: "Server run \<Rightarrow> Request \<Rightarrow> Response option" where
  "reply (Panic err) r = None"
| "reply (Return (ListenAndServe addr handler)) r = Some (handler r)"

section \<open>Sample inputs\<close>

text \<open>Concrete inputs for the scenarios: a file system with four files, the results
  of the two decoders on the payloads of those files, and a dispatch for the multiplexer. The two tables stand for
  \<^verbatim>\<open>yaml.Unmarshal\<close> and \<^verbatim>\<open>json.Unmarshal\<close> on these four payloads only: the YAML list
  and the JSON array decode to their one rule, the empty payload is an empty YAML
  document and no JSON text, and \<^verbatim>\<open>not valid json\<close> is neither a YAML list nor JSON.
  The general theorems quantify over every decoder, every file system and every
  dispatch.\<close>

definition quoted :: "string \<Rightarrow> string" where
  "quoted s = CHR 0x22 # s @ [CHR 0x22]"

definition override_yaml :: bytes where
  "override_yaml =
     ''- path: /urlshort-godoc'' @ [CHR 0x0A] @ ''  url: https://override.example.com''"

definition demo_json :: bytes where
  "demo_json =
     ''[{'' @ quoted ''path'' @ '': '' @ quoted ''/some-path'' @ '', '' @
     quoted ''url'' @ '': '' @ quoted ''https://example.com/demo'' @ ''}]''"

definition sample_ReadFile :: "string \<Rightarrow> error + bytes" where
  "sample_ReadFile name =
     (if name = ''override.yml'' then Inr override_yaml
      else if name = ''empty.yml'' then Inr []
      else if name = ''demo.json'' then Inr demo_json
      else if name = ''bad.json'' then Inr ''not valid json''
      else Inl (Error ''no such file or directory''))"

definition sample_yamlUnmarshal :: Unmarshal where
  "sample_yamlUnmarshal data =
     (if data = override_yaml
      then ([\<lparr>Path = ''/urlshort-godoc'', URL = ''https://override.example.com''\<rparr>], None)
      else if data = [] then ([], None)
      else ([], Some (Error ''yaml: unmarshal errors'')))"

definition sample_jsonUnmarshal :: Unmarshal where
  "sample_jsonUnmarshal data =
     (if data = demo_json
      then ([\<lparr>Path = ''/some-path'', URL = ''https://example.com/demo''\<rparr>], None)
      else ([], Some (Error ''invalid character in JSON text'')))"

text \<open>The dispatch of \<^verbatim>\<open>net/http\<close>, for a table whose only pattern is the root pattern
  and for requests whose target is a path. The multiplexer first brings the path into
  clean form (\<open>cleanPath\<close>: a leading slash, no empty segment, no \<^verbatim>\<open>.\<close> segment, every
  \<^verbatim>\<open>..\<close> segment removed together with the segment before it, a trailing slash kept).
  A request whose path is not in clean form is not handed to any handler: the
  multiplexer answers it with a redirect to the clean path, followed by the query of
  the request if there is one (the status of this redirect is 307 in current releases
  of Go and 301 in older ones). A \<^verbatim>\<open>CONNECT\<close> request is exempt from the cleaning. Any other
  request is handed to the handler of the root pattern, which matches every path that
  begins with a slash.\<close>

fun splitSlash :: "string \<Rightarrow> string \<Rightarrow> string list" where
  "splitSlash segment [] = [rev segment]"
| "splitSlash segment (c # cs) =
     (if c = CHR ''/'' then rev segment # splitSlash [] cs else splitSlash (c # segment) cs)"

fun cleanSegments :: "string list \<Rightarrow> string list \<Rightarrow> string list" where
  "cleanSegments kept [] = rev kept"
| "cleanSegments kept (s # ss) =
     (if s = [] \<or> s = ''.'' then cleanSegments kept ss
      else if s = ''..'' then cleanSegments (case kept of [] \<Rightarrow> [] | k # ks \<Rightarrow> ks) ss
      else cleanSegments (s # kept) ss)"

fun joinSlash :: "string list \<Rightarrow> string" where
  "joinSlash [] = []"
| "joinSlash [s] = s"
| "joinSlash (s # t # ss) = s @ CHR ''/'' # joinSlash (t # ss)"

definition cleanPath :: "string \<Rightarrow> string" where
  "cleanPath p =
     (if p = [] then ''/''
      else let rooted = (if hd p = CHR ''/'' then p else CHR ''/'' # p);
               np = CHR ''/'' # joinSlash (cleanSegments [] (splitSlash [] rooted))
           in if last rooted = CHR ''/'' \<and> np \<noteq> ''/'' then np @ ''/'' else np)"

definition sample_ServeHTTP :: Dispatch where
  "sample_ServeHTTP mux r =
     (if Method r \<noteq> ''CONNECT'' \<and> cleanPath (URLPath r) \<noteq> URLPath r
      then Redirect (cleanPath (URLPath r) @ (if RawQuery r = [] then [] else CHR ''?'' # RawQuery r)) 307
      else if URLPath r \<noteq> [] \<and> hd (URLPath r) = CHR ''/''
      then (case map_of mux ''/'' of Some handler \<Rightarrow> handler r | None \<Rightarrow> NotFound)
      else NotFound)"

definition get :: "string \<Rightarrow> Request" where
  "get path = \<lparr>Method = ''GET'', Host = ''localhost:8080'', URLPath = path, RawQuery = []\<rparr>"

section \<open>The selection of the top-level handler, as the specification words it\<close>

text \<open>The specification's rule of selection, word for word: the YAML router when a
  YAML payload was supplied and is non-empty, else the JSON router when a JSON payload
  was supplied and is non-empty, else the exact-match handler itself. It is compared
  with \<open>main\<close> below.\<close>

definition main_as_specified ::
  "(string \<Rightarrow> error + bytes) \<Rightarrow> Unmarshal \<Rightarrow> Unmarshal \<Rightarrow> Dispatch \<Rightarrow> Config \<Rightarrow> Server run" where
  "main_as_specified ReadFile yamlUnmarshal jsonUnmarshal ServeHTTP config =
     (let yamlBytes = getFileBytes ReadFile (PathToYAML config);
          jsonBytes = getFileBytes ReadFile (PathToJSON config);
          exact = makeMapHandler ServeHTTP makeDefaultMux;
          otherwise =
            (case jsonBytes of
               Some json \<Rightarrow>
                 if json \<noteq> []
                 then (case JSONHandler jsonUnmarshal json exact of
                         Inl err \<Rightarrow> Panic err
                       | Inr handler \<Rightarrow> Return (startServer handler))
                 else Return (startServer exact)
             | None \<Rightarrow> Return (startServer exact))
      in case yamlBytes of
           Some yaml \<Rightarrow>
             if yaml \<noteq> []
             then (case YAMLHandler yamlUnmarshal yaml exact of
                     Inl err \<Rightarrow> Panic err
                   | Inr handler \<Rightarrow> Return (startServer handler))
             else otherwise
         | None \<Rightarrow> otherwise)"

section \<open>Auxiliary facts\<close>

text \<open>The loop redirects at the first mapper whose path is the request's, and reaches
  the fallback when no mapper has that path.\<close>

lemma serveMappers_first:
  "\<forall>m'\<in>set before. Path m' \<noteq> URLPath r \<Longrightarrow> Path m = URLPath r \<Longrightarrow>
   serveMappers (before @ m # after) fallback r = Redirect (URL m) 301"
  by (induction before) auto

lemma serveMappers_none:
  "\<forall>m\<in>set mappers. Path m \<noteq> URLPath r \<Longrightarrow> serveMappers mappers fallback r = fallback r"
  by (induction mappers) auto

text \<open>The built-in map has two entries; a request for any other path goes to the
  multiplexer.\<close>

lemma builtin_urlshort:
  "URLPath r = ''/urlshort-godoc'' \<Longrightarrow>
   makeMapHandler ServeHTTP makeDefaultMux r =
     Redirect ''https://godoc.org/github.com/gophercises/urlshort'' 301"
  by (simp add: makeMapHandler_def MapHandler_def)

lemma builtin_yaml:
  "URLPath r = ''/yaml-godoc'' \<Longrightarrow>
   makeMapHandler ServeHTTP makeDefaultMux r = Redirect ''https://godoc.org/gopkg.in/yaml.v2'' 301"
  by (simp add: makeMapHandler_def MapHandler_def)

lemma builtin_miss:
  "URLPath r \<noteq> ''/urlshort-godoc'' \<Longrightarrow> URLPath r \<noteq> ''/yaml-godoc'' \<Longrightarrow>
   makeMapHandler ServeHTTP makeDefaultMux r = ServeHTTP makeDefaultMux r"
  by (simp add: makeMapHandler_def MapHandler_def)

lemma helloWorldHandler_greeting:
  "helloWorldHandler r = Write (''Hello, world!'' @ [CHR 0x0A])"
  by (simp add: helloWorldHandler_def Fprintln_def)

text \<open>The sample dispatch hands a request whose path is in clean form to
  \<open>helloWorldHandler\<close>.\<close>

lemma cleanPath_rooted: "cleanPath p \<noteq> [] \<and> hd (cleanPath p) = CHR ''/''"
  by (simp add: cleanPath_def Let_def)

lemma sample_ServeHTTP_clean:
  assumes "cleanPath (URLPath r) = URLPath r"
  shows "sample_ServeHTTP makeDefaultMux r = helloWorldHandler r"
proof -
  have "URLPath r \<noteq> [] \<and> hd (URLPath r) = CHR ''/''"
    using cleanPath_rooted [of "URLPath r"] assms by simp
  then show ?thesis
    using assms
    by (simp add: sample_ServeHTTP_def makeDefaultMux_def HandleFunc_def NewServeMux_def)
qed

text \<open>The handler \<open>main\<close> installs, by the files that could be read.\<close>

lemma reply_main_yaml:
  assumes "ReadFile (PathToYAML config) = Inr yaml" and "yamlUnmarshal yaml = (mappers, None)"
  shows "reply (main ReadFile yamlUnmarshal jsonUnmarshal ServeHTTP config) r =
         Some (serveMappers mappers (makeMapHandler ServeHTTP makeDefaultMux) r)"
  using assms
  by (simp add: main_def getFileBytes_def makeYAMLHandler_def YAMLHandler_def startServer_def)

lemma reply_main_json:
  assumes "ReadFile (PathToYAML config) = Inl e" and "ReadFile (PathToJSON config) = Inr json"
    and "jsonUnmarshal json = (mappers, None)"
  shows "reply (main ReadFile yamlUnmarshal jsonUnmarshal ServeHTTP config) r =
         Some (serveMappers mappers (makeMapHandler ServeHTTP makeDefaultMux) r)"
  using assms
  by (simp add: main_def getFileBytes_def makeJSONHandler_def JSONHandler_def startServer_def)

lemma reply_main_builtin:
  assumes "ReadFile (PathToYAML config) = Inl e" and "ReadFile (PathToJSON config) = Inl e'"
  shows "reply (main ReadFile yamlUnmarshal jsonUnmarshal ServeHTTP config) r =
         Some (makeMapHandler ServeHTTP makeDefaultMux r)"
  using assms
  by (simp add: main_def getFileBytes_def startServer_def)

lemma reply_main_selected:
  assumes "(ReadFile (PathToYAML config) = Inr data \<and> yamlUnmarshal data = (mappers, None)) \<or>
    (ReadFile (PathToYAML config) = Inl e \<and> ReadFile (PathToJSON config) = Inr data \<and>
     jsonUnmarshal data = (mappers, None))"
  shows "reply (main ReadFile yamlUnmarshal jsonUnmarshal ServeHTTP config) r =
         Some (serveMappers mappers (makeMapHandler ServeHTTP makeDefaultMux) r)"
  using assms
proof (elim disjE conjE)
  assume "ReadFile (PathToYAML config) = Inr data" and "yamlUnmarshal data = (mappers, None)"
  then show ?thesis by (rule reply_main_yaml)
next
  assume "ReadFile (PathToYAML config) = Inl e" and "ReadFile (PathToJSON config) = Inr data"
    and "jsonUnmarshal data = (mappers, None)"
  then show ?thesis by (rule reply_main_json)
qed

lemma main_yaml_panic:
  assumes "ReadFile (PathToYAML config) = Inr data" and "yamlUnmarshal data = (mappers, Some err)"
  shows "main ReadFile yamlUnmarshal jsonUnmarshal ServeHTTP config = Panic err"
  using assms by (simp add: main_def getFileBytes_def makeYAMLHandler_def YAMLHandler_def)

lemma main_json_panic:
  assumes "ReadFile (PathToYAML config) = Inl e" and "ReadFile (PathToJSON config) = Inr data"
    and "jsonUnmarshal data = (mappers, Some err)"
  shows "main ReadFile yamlUnmarshal jsonUnmarshal ServeHTTP config = Panic err"
  using assms by (simp add: main_def getFileBytes_def makeJSONHandler_def JSONHandler_def)

text \<open>Startup either panics or installs the chain over some rule set (the empty one
  when no payload was read).\<close>

lemma reply_main_cases:
  "(\<exists>err. main ReadFile yamlUnmarshal jsonUnmarshal ServeHTTP config = Panic err) \<or>
   (\<exists>mappers. \<forall>r. reply (main ReadFile yamlUnmarshal jsonUnmarshal ServeHTTP config) r =
      Some (serveMappers mappers (makeMapHandler ServeHTTP makeDefaultMux) r))"
proof (cases "ReadFile (PathToYAML config)")
  case (Inr yaml)
  obtain ms err where dec: "yamlUnmarshal yaml = (ms, err)" by (cases "yamlUnmarshal yaml")
  show ?thesis
  proof (cases err)
    case None
    with Inr dec have "\<forall>r. reply (main ReadFile yamlUnmarshal jsonUnmarshal ServeHTTP config) r =
        Some (serveMappers ms (makeMapHandler ServeHTTP makeDefaultMux) r)"
      by (simp add: reply_main_yaml)
    then show ?thesis by blast
  next
    case (Some x)
    with Inr dec have "main ReadFile yamlUnmarshal jsonUnmarshal ServeHTTP config = Panic x"
      by (simp add: main_yaml_panic)
    then show ?thesis by blast
  qed
next
  case yaml: (Inl e)
  show ?thesis
  proof (cases "ReadFile (PathToJSON config)")
    case (Inr json)
    obtain ms err where dec: "jsonUnmarshal json = (ms, err)" by (cases "jsonUnmarshal json")
    show ?thesis
    proof (cases err)
      case None
      with yaml Inr dec have "\<forall>r. reply (main ReadFile yamlUnmarshal jsonUnmarshal ServeHTTP config) r =
          Some (serveMappers ms (makeMapHandler ServeHTTP makeDefaultMux) r)"
        by (simp add: reply_main_json)
      then show ?thesis by blast
    next
      case (Some x)
      with yaml Inr dec have "main ReadFile yamlUnmarshal jsonUnmarshal ServeHTTP config = Panic x"
        by (simp add: main_json_panic)
      then show ?thesis by blast
    qed
  next
    case (Inl e')
    with yaml have "\<forall>r. reply (main ReadFile yamlUnmarshal jsonUnmarshal ServeHTTP config) r =
        Some (serveMappers [] (makeMapHandler ServeHTTP makeDefaultMux) r)"
      by (simp add: reply_main_builtin)
    then show ?thesis by blast
  qed
qed

text \<open>Two requests with the same path are served alike by every layer.\<close>

lemma serveMappers_path_only:
  assumes "URLPath r1 = URLPath r2" and "fallback r1 = fallback r2"
  shows "serveMappers mappers fallback r1 = serveMappers mappers fallback r2"
  using assms by (induction mappers) auto

lemma builtin_path_only:
  assumes "URLPath r1 = URLPath r2" and "ServeHTTP makeDefaultMux r1 = ServeHTTP makeDefaultMux r2"
  shows "makeMapHandler ServeHTTP makeDefaultMux r1 = makeMapHandler ServeHTTP makeDefaultMux r2"
  using assms by (simp add: makeMapHandler_def MapHandler_def split: option.splits)

lemma composed_path_only:
  assumes "URLPath r1 = URLPath r2" and "ServeHTTP makeDefaultMux r1 = ServeHTTP makeDefaultMux r2"
  shows "serveMappers mappers (makeMapHandler ServeHTTP makeDefaultMux) r1 =
         serveMappers mappers (makeMapHandler ServeHTTP makeDefaultMux) r2"
  using assms(1) builtin_path_only [where ServeHTTP = ServeHTTP, OF assms]
  by (rule serveMappers_path_only)

text \<open>Two requests with the same path get the same answer from the layers of the
  program, unless both are left to the multiplexer.\<close>

lemma builtin_same_or_mux:
  assumes "URLPath r1 = URLPath r2"
  shows "makeMapHandler ServeHTTP makeDefaultMux r1 = makeMapHandler ServeHTTP makeDefaultMux r2 \<or>
         (makeMapHandler ServeHTTP makeDefaultMux r1 = ServeHTTP makeDefaultMux r1 \<and>
          makeMapHandler ServeHTTP makeDefaultMux r2 = ServeHTTP makeDefaultMux r2)"
  using assms by (simp add: makeMapHandler_def MapHandler_def)

lemma composed_same_or_mux:
  assumes "URLPath r1 = URLPath r2"
  shows "serveMappers mappers (makeMapHandler ServeHTTP makeDefaultMux) r1 =
         serveMappers mappers (makeMapHandler ServeHTTP makeDefaultMux) r2 \<or>
         (serveMappers mappers (makeMapHandler ServeHTTP makeDefaultMux) r1 = ServeHTTP makeDefaultMux r1 \<and>
          serveMappers mappers (makeMapHandler ServeHTTP makeDefaultMux) r2 = ServeHTTP makeDefaultMux r2)"
  using assms builtin_same_or_mux [OF assms, of ServeHTTP]
  by (induction mappers) auto

section \<open>The structured-rule handlers\<close>

text \<open>
  \<^bold>\<open>C1.\<close> For every decoded rule set and every request: when some rule has the path
  of the request, the handler built by \<open>YAMLHandler\<close> (and the one built by
  \<open>JSONHandler\<close>) answers with a 301 redirect to the URL of the first such rule in the
  order of the rule set, whatever follows that rule; when no rule has the path, the
  answer is the fallback's, unchanged. A rule set splits as \<open>before @ m # after\<close> with
  no match in \<open>before\<close> exactly when \<open>m\<close> is its first match.
\<close>

theorem structured_rule_first_match:
  assumes "Unmarshal payload = (mappers, None)"
  shows "\<exists>h. YAMLHandler Unmarshal payload fallback = Inr h \<and>
             JSONHandler Unmarshal payload fallback = Inr h \<and>
             (\<forall>r before m after.
                mappers = before @ m # after \<and> (\<forall>m'\<in>set before. Path m' \<noteq> URLPath r) \<and>
                Path m = URLPath r \<longrightarrow> h r = Redirect (URL m) 301) \<and>
             (\<forall>r. (\<forall>m\<in>set mappers. Path m \<noteq> URLPath r) \<longrightarrow> h r = fallback r)"
proof (intro exI conjI allI impI)
  show "YAMLHandler Unmarshal payload fallback = Inr (serveMappers mappers fallback)"
    using assms by (simp add: YAMLHandler_def)
  show "JSONHandler Unmarshal payload fallback = Inr (serveMappers mappers fallback)"
    using assms by (simp add: JSONHandler_def)
next
  fix r :: Request and before m after
  assume "mappers = before @ m # after \<and> (\<forall>m'\<in>set before. Path m' \<noteq> URLPath r) \<and>
          Path m = URLPath r"
  then show "serveMappers mappers fallback r = Redirect (URL m) 301"
    by (simp add: serveMappers_first)
next
  fix r :: Request
  assume "\<forall>m\<in>set mappers. Path m \<noteq> URLPath r"
  then show "serveMappers mappers fallback r = fallback r"
    by (rule serveMappers_none)
qed

text \<open>Three rules, two of them for \<^verbatim>\<open>/a\<close>: the first one wins, the rule for \<^verbatim>\<open>/b\<close>
  between them is found, and \<^verbatim>\<open>/c\<close> goes to the fallback.\<close>

theorem structured_rule_first_match_witness:
  "\<exists>h. YAMLHandler (\<lambda>data. ([\<lparr>Path = ''/a'', URL = ''https://first.example.com''\<rparr>,
                               \<lparr>Path = ''/b'', URL = ''https://other.example.com''\<rparr>,
                               \<lparr>Path = ''/a'', URL = ''https://second.example.com''\<rparr>], None))
          ''payload'' helloWorldHandler = Inr h \<and>
       h (get ''/a'') = Redirect ''https://first.example.com'' 301 \<and>
       h (get ''/b'') = Redirect ''https://other.example.com'' 301 \<and>
       h (get ''/c'') = helloWorldHandler (get ''/c'')"
proof -
  let ?a = "\<lparr>Path = ''/a'', URL = ''https://first.example.com''\<rparr>"
  let ?b = "\<lparr>Path = ''/b'', URL = ''https://other.example.com''\<rparr>"
  let ?c = "\<lparr>Path = ''/a'', URL = ''https://second.example.com''\<rparr>"
  let ?U = "\<lambda>data::bytes. ([?a, ?b, ?c], None::error option)"
  have dec: "?U ''payload'' = ([?a, ?b, ?c], None)" by simp
  from structured_rule_first_match
         [where Unmarshal = ?U and payload = "''payload''" and fallback = helloWorldHandler, OF dec]
  obtain h where h: "YAMLHandler ?U ''payload'' helloWorldHandler = Inr h"
    and hit: "\<And>r before m after. [?a, ?b, ?c] = before @ m # after \<Longrightarrow>
                (\<forall>m'\<in>set before. Path m' \<noteq> URLPath r) \<Longrightarrow> Path m = URLPath r \<Longrightarrow>
                h r = Redirect (URL m) 301"
    and miss: "\<And>r. (\<forall>m\<in>set [?a, ?b, ?c]. Path m \<noteq> URLPath r) \<Longrightarrow> h r = helloWorldHandler r"
    by blast
  have "h (get ''/a'') = Redirect ''https://first.example.com'' 301"
    using hit [of "[]" ?a "[?b, ?c]" "get ''/a''"] by (simp add: get_def)
  moreover have "h (get ''/b'') = Redirect ''https://other.example.com'' 301"
    using hit [of "[?a]" ?b "[?c]" "get ''/b''"] by (simp add: get_def)
  moreover have "h (get ''/c'') = helloWorldHandler (get ''/c'')"
    using miss [of "get ''/c''"] by (simp add: get_def)
  ultimately show ?thesis using h by blast
qed

text \<open>
  \<^bold>\<open>C2.\<close> When the decoder reports an error, \<open>YAMLHandler\<close> and \<open>JSONHandler\<close> return
  that error and no handler: whatever part of the rule set the decoder had filled in
  before it failed (\<open>mappers\<close> is arbitrary here) is dropped, so no handler over a
  partial rule set is ever built.
\<close>

theorem decode_failure_all_or_nothing:
  assumes "Unmarshal payload = (mappers, Some err)"
  shows "YAMLHandler Unmarshal payload fallback = Inl err \<and>
         JSONHandler Unmarshal payload fallback = Inl err \<and>
         (\<nexists>h. YAMLHandler Unmarshal payload fallback = Inr h) \<and>
         (\<nexists>h. JSONHandler Unmarshal payload fallback = Inr h)"
  using assms by (simp add: YAMLHandler_def JSONHandler_def)

text \<open>The JSON payload \<^verbatim>\<open>not valid json\<close>, and a YAML decoder that fails after one
  rule.\<close>

theorem decode_failure_all_or_nothing_witness:
  "sample_jsonUnmarshal ''not valid json'' = ([], Some (Error ''invalid character in JSON text'')) \<and>
   JSONHandler sample_jsonUnmarshal ''not valid json'' helloWorldHandler =
     Inl (Error ''invalid character in JSON text'') \<and>
   YAMLHandler (\<lambda>data. ([\<lparr>Path = ''/a'', URL = ''https://first.example.com''\<rparr>], Some (Error ''yaml: line 3'')))
     ''truncated'' helloWorldHandler = Inl (Error ''yaml: line 3'')"
proof -
  have j: "sample_jsonUnmarshal ''not valid json'' = ([], Some (Error ''invalid character in JSON text''))"
    by (simp add: sample_jsonUnmarshal_def demo_json_def quoted_def)
  let ?U = "\<lambda>data::bytes. ([\<lparr>Path = ''/a'', URL = ''https://first.example.com''\<rparr>], Some (Error ''yaml: line 3''))"
  have y: "?U ''truncated'' = ([\<lparr>Path = ''/a'', URL = ''https://first.example.com''\<rparr>], Some (Error ''yaml: line 3''))"
    by simp
  show ?thesis
    using j decode_failure_all_or_nothing
        [where Unmarshal = sample_jsonUnmarshal and payload = "''not valid json''"
           and fallback = helloWorldHandler, OF j]
      decode_failure_all_or_nothing
        [where Unmarshal = ?U and payload = "''truncated''" and fallback = helloWorldHandler, OF y]
    by simp
qed

section \<open>Startup\<close>

text \<open>
  The specification selects the YAML router when the YAML payload is supplied and
  non-empty. \<open>main\<close> tests the payload against \<^verbatim>\<open>nil\<close> only: with an empty YAML file
  and a JSON file of rules, \<open>main\<close> installs the YAML router over no rules and never
  looks at the JSON payload, so a request for the JSON rule's path gets the greeting,
  where the selection as specified redirects it.
\<close>

theorem startup_selection_as_specified_counterexample:
  "reply (main sample_ReadFile sample_yamlUnmarshal sample_jsonUnmarshal sample_ServeHTTP
            \<lparr>PathToYAML = ''empty.yml'', PathToJSON = ''demo.json''\<rparr>) (get ''/some-path'')
   \<noteq> reply (main_as_specified sample_ReadFile sample_yamlUnmarshal sample_jsonUnmarshal sample_ServeHTTP
            \<lparr>PathToYAML = ''empty.yml'', PathToJSON = ''demo.json''\<rparr>) (get ''/some-path'')"
proof -
  let ?cfg = "\<lparr>PathToYAML = ''empty.yml'', PathToJSON = ''demo.json''\<rparr>"
  have yaml: "sample_ReadFile (PathToYAML ?cfg) = Inr []"
    by (simp add: sample_ReadFile_def)
  have json: "sample_ReadFile (PathToJSON ?cfg) = Inr demo_json"
    by (simp add: sample_ReadFile_def)
  have nonempty: "demo_json \<noteq> []"
    by (simp add: demo_json_def)
  have "cleanPath ''/some-path'' = ''/some-path''"
    by (simp add: cleanPath_def)
  then have sample_some_path:
    "sample_ServeHTTP makeDefaultMux (get ''/some-path'') = helloWorldHandler (get ''/some-path'')"
    by (intro sample_ServeHTTP_clean) (simp add: get_def)
  have miss: "makeMapHandler sample_ServeHTTP makeDefaultMux (get ''/some-path'') =
              sample_ServeHTTP makeDefaultMux (get ''/some-path'')"
    by (rule builtin_miss) (simp_all add: get_def)
  have code: "reply (main sample_ReadFile sample_yamlUnmarshal sample_jsonUnmarshal sample_ServeHTTP ?cfg)
                (get ''/some-path'') = Some (Write (''Hello, world!'' @ [CHR 0x0A]))"
    using yaml
    by (simp add: reply_main_yaml [where yaml = "[]" and mappers = "[]"] sample_yamlUnmarshal_def
        override_yaml_def miss sample_some_path helloWorldHandler_greeting)
  have spec: "reply (main_as_specified sample_ReadFile sample_yamlUnmarshal sample_jsonUnmarshal sample_ServeHTTP ?cfg)
                (get ''/some-path'') = Some (Redirect ''https://example.com/demo'' 301)"
    using yaml json nonempty
    by (simp add: main_as_specified_def getFileBytes_def JSONHandler_def sample_jsonUnmarshal_def
        startServer_def get_def)
  show ?thesis
    unfolding code spec by simp
qed

text \<open>
  \<^bold>\<open>C3\<close> (amended). Exactly one top-level handler is selected, by this precedence: if
  the YAML file could be read, whatever its length, the YAML router over the exact-match
  handler is installed (or startup panics with the decoder's error), and neither the
  JSON file nor the JSON decoder has any influence; else if the JSON file could be
  read, whatever its length, the JSON router is installed likewise; else the
  exact-match handler is installed directly. The server listens on \<^verbatim>\<open>:8080\<close>. Where
  neither file was read as an empty payload, this is the selection as the
  specification words it.
\<close>

theorem startup_selection:
  "(\<forall>yaml. ReadFile (PathToYAML config) = Inr yaml \<longrightarrow>
      main ReadFile yamlUnmarshal jsonUnmarshal ServeHTTP config =
        (case YAMLHandler yamlUnmarshal yaml (makeMapHandler ServeHTTP makeDefaultMux) of
           Inl err \<Rightarrow> Panic err
         | Inr handler \<Rightarrow> Return (ListenAndServe '':8080'' handler)) \<and>
      (\<forall>jsonUnmarshal' path.
         main ReadFile yamlUnmarshal jsonUnmarshal' ServeHTTP (config\<lparr>PathToJSON := path\<rparr>) =
         main ReadFile yamlUnmarshal jsonUnmarshal ServeHTTP config)) \<and>
   (\<forall>e json. ReadFile (PathToYAML config) = Inl e \<and> ReadFile (PathToJSON config) = Inr json \<longrightarrow>
      main ReadFile yamlUnmarshal jsonUnmarshal ServeHTTP config =
        (case JSONHandler jsonUnmarshal json (makeMapHandler ServeHTTP makeDefaultMux) of
           Inl err \<Rightarrow> Panic err
         | Inr handler \<Rightarrow> Return (ListenAndServe '':8080'' handler))) \<and>
   (\<forall>e e'. ReadFile (PathToYAML config) = Inl e \<and> ReadFile (PathToJSON config) = Inl e' \<longrightarrow>
      main ReadFile yamlUnmarshal jsonUnmarshal ServeHTTP config =
        Return (ListenAndServe '':8080'' (makeMapHandler ServeHTTP makeDefaultMux))) \<and>
   (ReadFile (PathToYAML config) \<noteq> Inr [] \<and> ReadFile (PathToJSON config) \<noteq> Inr [] \<longrightarrow>
      main ReadFile yamlUnmarshal jsonUnmarshal ServeHTTP config =
      main_as_specified ReadFile yamlUnmarshal jsonUnmarshal ServeHTTP config)"
proof (intro conjI allI impI)
  fix yaml
  assume "ReadFile (PathToYAML config) = Inr yaml"
  then show "main ReadFile yamlUnmarshal jsonUnmarshal ServeHTTP config =
        (case YAMLHandler yamlUnmarshal yaml (makeMapHandler ServeHTTP makeDefaultMux) of
           Inl err \<Rightarrow> Panic err
         | Inr handler \<Rightarrow> Return (ListenAndServe '':8080'' handler))"
    by (simp add: main_def getFileBytes_def makeYAMLHandler_def startServer_def split: sum.splits)
next
  fix yaml jsonUnmarshal' path
  assume "ReadFile (PathToYAML config) = Inr yaml"
  then show "main ReadFile yamlUnmarshal jsonUnmarshal' ServeHTTP (config\<lparr>PathToJSON := path\<rparr>) =
             main ReadFile yamlUnmarshal jsonUnmarshal ServeHTTP config"
    by (simp add: main_def getFileBytes_def)
next
  fix e json
  assume "ReadFile (PathToYAML config) = Inl e \<and> ReadFile (PathToJSON config) = Inr json"
  then show "main ReadFile yamlUnmarshal jsonUnmarshal ServeHTTP config =
        (case JSONHandler jsonUnmarshal json (makeMapHandler ServeHTTP makeDefaultMux) of
           Inl err \<Rightarrow> Panic err
         | Inr handler \<Rightarrow> Return (ListenAndServe '':8080'' handler))"
    by (simp add: main_def getFileBytes_def makeJSONHandler_def startServer_def split: sum.splits)
next
  fix e e'
  assume "ReadFile (PathToYAML config) = Inl e \<and> ReadFile (PathToJSON config) = Inl e'"
  then show "main ReadFile yamlUnmarshal jsonUnmarshal ServeHTTP config =
        Return (ListenAndServe '':8080'' (makeMapHandler ServeHTTP makeDefaultMux))"
    by (simp add: main_def getFileBytes_def startServer_def)
next
  assume "ReadFile (PathToYAML config) \<noteq> Inr [] \<and> ReadFile (PathToJSON config) \<noteq> Inr []"
  then show "main ReadFile yamlUnmarshal jsonUnmarshal ServeHTTP config =
             main_as_specified ReadFile yamlUnmarshal jsonUnmarshal ServeHTTP config"
    by (cases "ReadFile (PathToYAML config)"; cases "ReadFile (PathToJSON config)")
       (simp_all add: main_def main_as_specified_def getFileBytes_def makeYAMLHandler_def
          makeJSONHandler_def split: sum.splits)
qed

text \<open>An empty YAML file beside a JSON file, a YAML file beside two different JSON
  files, a JSON file alone, no file at all, and two files that are not empty.\<close>

theorem startup_selection_witness:
  "sample_ReadFile ''empty.yml'' = Inr [] \<and>
   main sample_ReadFile sample_yamlUnmarshal sample_jsonUnmarshal sample_ServeHTTP
     \<lparr>PathToYAML = ''empty.yml'', PathToJSON = ''demo.json''\<rparr> =
     Return (ListenAndServe '':8080'' (serveMappers [] (makeMapHandler sample_ServeHTTP makeDefaultMux))) \<and>
   main sample_ReadFile sample_yamlUnmarshal sample_jsonUnmarshal sample_ServeHTTP
     \<lparr>PathToYAML = ''override.yml'', PathToJSON = ''bad.json''\<rparr> =
     main sample_ReadFile sample_yamlUnmarshal sample_jsonUnmarshal sample_ServeHTTP
     \<lparr>PathToYAML = ''override.yml'', PathToJSON = ''demo.json''\<rparr> \<and>
   main sample_ReadFile sample_yamlUnmarshal sample_jsonUnmarshal sample_ServeHTTP
     \<lparr>PathToYAML = [], PathToJSON = ''demo.json''\<rparr> =
     Return (ListenAndServe '':8080''
       (serveMappers [\<lparr>Path = ''/some-path'', URL = ''https://example.com/demo''\<rparr>]
          (makeMapHandler sample_ServeHTTP makeDefaultMux))) \<and>
   main sample_ReadFile sample_yamlUnmarshal sample_jsonUnmarshal sample_ServeHTTP
     \<lparr>PathToYAML = [], PathToJSON = []\<rparr> =
     Return (ListenAndServe '':8080'' (makeMapHandler sample_ServeHTTP makeDefaultMux)) \<and>
   main sample_ReadFile sample_yamlUnmarshal sample_jsonUnmarshal sample_ServeHTTP
     \<lparr>PathToYAML = ''override.yml'', PathToJSON = ''demo.json''\<rparr> =
     main_as_specified sample_ReadFile sample_yamlUnmarshal sample_jsonUnmarshal sample_ServeHTTP
     \<lparr>PathToYAML = ''override.yml'', PathToJSON = ''demo.json''\<rparr>"
proof -
  have empty: "sample_ReadFile ''empty.yml'' = Inr []"
    by (simp add: sample_ReadFile_def)
  have override: "sample_ReadFile ''override.yml'' = Inr override_yaml"
    by (simp add: sample_ReadFile_def)
  have demo: "sample_ReadFile ''demo.json'' = Inr demo_json"
    by (simp add: sample_ReadFile_def)
  have absent: "sample_ReadFile [] = Inl (Error ''no such file or directory'')"
    by (simp add: sample_ReadFile_def)
  have "main sample_ReadFile sample_yamlUnmarshal sample_jsonUnmarshal sample_ServeHTTP
          \<lparr>PathToYAML = ''empty.yml'', PathToJSON = ''demo.json''\<rparr> =
        Return (ListenAndServe '':8080'' (serveMappers [] (makeMapHandler sample_ServeHTTP makeDefaultMux)))"
    using startup_selection [where ReadFile = sample_ReadFile and yamlUnmarshal = sample_yamlUnmarshal
        and jsonUnmarshal = sample_jsonUnmarshal and ServeHTTP = sample_ServeHTTP
        and config = "\<lparr>PathToYAML = ''empty.yml'', PathToJSON = ''demo.json''\<rparr>"] empty
    by (simp add: YAMLHandler_def sample_yamlUnmarshal_def override_yaml_def)
  moreover have "main sample_ReadFile sample_yamlUnmarshal sample_jsonUnmarshal sample_ServeHTTP
          \<lparr>PathToYAML = ''override.yml'', PathToJSON = ''bad.json''\<rparr> =
        main sample_ReadFile sample_yamlUnmarshal sample_jsonUnmarshal sample_ServeHTTP
          \<lparr>PathToYAML = ''override.yml'', PathToJSON = ''demo.json''\<rparr>"
  proof -
    have ov: "sample_ReadFile (PathToYAML \<lparr>PathToYAML = ''override.yml'', PathToJSON = ''demo.json''\<rparr>) =
              Inr override_yaml"
      using override by simp
    note sel = startup_selection [where ReadFile = sample_ReadFile and yamlUnmarshal = sample_yamlUnmarshal
        and jsonUnmarshal = sample_jsonUnmarshal and ServeHTTP = sample_ServeHTTP
        and config = "\<lparr>PathToYAML = ''override.yml'', PathToJSON = ''demo.json''\<rparr>",
        THEN conjunct1, rule_format, OF ov, THEN conjunct2, rule_format,
        of sample_jsonUnmarshal "''bad.json''"]
    then show ?thesis by simp
  qed
  moreover have "main sample_ReadFile sample_yamlUnmarshal sample_jsonUnmarshal sample_ServeHTTP
          \<lparr>PathToYAML = [], PathToJSON = ''demo.json''\<rparr> =
        Return (ListenAndServe '':8080''
          (serveMappers [\<lparr>Path = ''/some-path'', URL = ''https://example.com/demo''\<rparr>]
             (makeMapHandler sample_ServeHTTP makeDefaultMux)))"
    using startup_selection [where ReadFile = sample_ReadFile and yamlUnmarshal = sample_yamlUnmarshal
        and jsonUnmarshal = sample_jsonUnmarshal and ServeHTTP = sample_ServeHTTP
        and config = "\<lparr>PathToYAML = [], PathToJSON = ''demo.json''\<rparr>"] absent demo
    by (simp add: JSONHandler_def sample_jsonUnmarshal_def)
  moreover have "main sample_ReadFile sample_yamlUnmarshal sample_jsonUnmarshal sample_ServeHTTP
          \<lparr>PathToYAML = [], PathToJSON = []\<rparr> =
        Return (ListenAndServe '':8080'' (makeMapHandler sample_ServeHTTP makeDefaultMux))"
    using startup_selection [where ReadFile = sample_ReadFile and yamlUnmarshal = sample_yamlUnmarshal
        and jsonUnmarshal = sample_jsonUnmarshal and ServeHTTP = sample_ServeHTTP
        and config = "\<lparr>PathToYAML = [], PathToJSON = []\<rparr>"] absent
    by simp
  moreover have "main sample_ReadFile sample_yamlUnmarshal sample_jsonUnmarshal sample_ServeHTTP
          \<lparr>PathToYAML = ''override.yml'', PathToJSON = ''demo.json''\<rparr> =
        main_as_specified sample_ReadFile sample_yamlUnmarshal sample_jsonUnmarshal sample_ServeHTTP
          \<lparr>PathToYAML = ''override.yml'', PathToJSON = ''demo.json''\<rparr>"
  proof -
    have "override_yaml \<noteq> []" and "demo_json \<noteq> []"
      by (simp_all add: override_yaml_def demo_json_def)
    then show ?thesis
      using startup_selection [where ReadFile = sample_ReadFile and yamlUnmarshal = sample_yamlUnmarshal
          and jsonUnmarshal = sample_jsonUnmarshal and ServeHTTP = sample_ServeHTTP
          and config = "\<lparr>PathToYAML = ''override.yml'', PathToJSON = ''demo.json''\<rparr>",
          THEN conjunct2, THEN conjunct2, THEN conjunct2] override demo
      by simp
  qed
  ultimately show ?thesis using empty by simp
qed

text \<open>
  \<^bold>\<open>C4.\<close> A payload that fails to decode aborts startup: \<open>makeYAMLHandler\<close> and
  \<open>makeJSONHandler\<close> panic with the decoder's error, \<open>main\<close> ends with that panic
  instead of a server, and no request is ever answered. The payload decoded is the
  YAML file when it could be read and the JSON file otherwise (a JSON file beside a
  readable YAML file is never decoded, see C3).
\<close>

theorem decode_failure_aborts_startup:
  "(yamlUnmarshal data = (mappers, Some err) \<longrightarrow>
      makeYAMLHandler yamlUnmarshal data fallback = Panic err) \<and>
   (jsonUnmarshal data = (mappers, Some err) \<longrightarrow>
      makeJSONHandler jsonUnmarshal data fallback = Panic err) \<and>
   (ReadFile (PathToYAML config) = Inr data \<and> yamlUnmarshal data = (mappers, Some err) \<longrightarrow>
      main ReadFile yamlUnmarshal jsonUnmarshal ServeHTTP config = Panic err \<and>
      reply (main ReadFile yamlUnmarshal jsonUnmarshal ServeHTTP config) r = None) \<and>
   (ReadFile (PathToYAML config) = Inl e \<and> ReadFile (PathToJSON config) = Inr data \<and>
    jsonUnmarshal data = (mappers, Some err) \<longrightarrow>
      main ReadFile yamlUnmarshal jsonUnmarshal ServeHTTP config = Panic err \<and>
      reply (main ReadFile yamlUnmarshal jsonUnmarshal ServeHTTP config) r = None)"
  by (simp add: makeYAMLHandler_def makeJSONHandler_def YAMLHandler_def JSONHandler_def
      main_yaml_panic main_json_panic)

text \<open>The JSON file holding \<^verbatim>\<open>not valid json\<close>, alone and then given as the YAML
  file.\<close>

theorem decode_failure_aborts_startup_witness:
  "sample_ReadFile [] = Inl (Error ''no such file or directory'') \<and>
   sample_ReadFile ''bad.json'' = Inr ''not valid json'' \<and>
   sample_jsonUnmarshal ''not valid json'' = ([], Some (Error ''invalid character in JSON text'')) \<and>
   main sample_ReadFile sample_yamlUnmarshal sample_jsonUnmarshal sample_ServeHTTP
     \<lparr>PathToYAML = [], PathToJSON = ''bad.json''\<rparr> = Panic (Error ''invalid character in JSON text'') \<and>
   reply (main sample_ReadFile sample_yamlUnmarshal sample_jsonUnmarshal sample_ServeHTTP
     \<lparr>PathToYAML = [], PathToJSON = ''bad.json''\<rparr>) (get ''/yaml-godoc'') = None \<and>
   makeJSONHandler sample_jsonUnmarshal ''not valid json'' helloWorldHandler =
     Panic (Error ''invalid character in JSON text'') \<and>
   sample_yamlUnmarshal ''not valid json'' = ([], Some (Error ''yaml: unmarshal errors'')) \<and>
   makeYAMLHandler sample_yamlUnmarshal ''not valid json'' helloWorldHandler =
     Panic (Error ''yaml: unmarshal errors'') \<and>
   main sample_ReadFile sample_yamlUnmarshal sample_jsonUnmarshal sample_ServeHTTP
     \<lparr>PathToYAML = ''bad.json'', PathToJSON = ''demo.json''\<rparr> = Panic (Error ''yaml: unmarshal errors'')"
proof -
  have absent: "sample_ReadFile [] = Inl (Error ''no such file or directory'')"
    by (simp add: sample_ReadFile_def)
  have bad: "sample_ReadFile ''bad.json'' = Inr ''not valid json''"
    by (simp add: sample_ReadFile_def)
  have j: "sample_jsonUnmarshal ''not valid json'' = ([], Some (Error ''invalid character in JSON text''))"
    by (simp add: sample_jsonUnmarshal_def demo_json_def quoted_def)
  have y: "sample_yamlUnmarshal ''not valid json'' = ([], Some (Error ''yaml: unmarshal errors''))"
    by (simp add: sample_yamlUnmarshal_def override_yaml_def)
  note json_case = decode_failure_aborts_startup
    [where ReadFile = sample_ReadFile and yamlUnmarshal = sample_yamlUnmarshal
       and jsonUnmarshal = sample_jsonUnmarshal and ServeHTTP = sample_ServeHTTP and data = "''not valid json''"
       and mappers = "[]" and err = "Error ''invalid character in JSON text''"
       and config = "\<lparr>PathToYAML = [], PathToJSON = ''bad.json''\<rparr>"
       and e = "Error ''no such file or directory''" and fallback = helloWorldHandler
       and r = "get ''/yaml-godoc''"]
  note yaml_case = decode_failure_aborts_startup
    [where ReadFile = sample_ReadFile and yamlUnmarshal = sample_yamlUnmarshal
       and jsonUnmarshal = sample_jsonUnmarshal and ServeHTTP = sample_ServeHTTP and data = "''not valid json''"
       and mappers = "[]" and err = "Error ''yaml: unmarshal errors''"
       and config = "\<lparr>PathToYAML = ''bad.json'', PathToJSON = ''demo.json''\<rparr>"
       and fallback = helloWorldHandler]
  show ?thesis
    using absent bad j y json_case yaml_case by simp
qed

section \<open>Matching and layering\<close>

text \<open>
  \<^bold>\<open>C5.\<close> Matching is equality of strings, in the structured-rule handlers and in
  \<open>MapHandler\<close>: for any two distinct strings \<open>p\<close> and \<open>q\<close>, a rule (or map entry) for
  \<open>p\<close> redirects the request whose path is \<open>p\<close> and leaves the request whose path is
  \<open>q\<close> to the fallback, however close \<open>q\<close> is to \<open>p\<close>.
\<close>

theorem exact_match_only:
  assumes "p \<noteq> q"
  shows "serveMappers [\<lparr>Path = p, URL = u\<rparr>] fallback (r\<lparr>URLPath := p\<rparr>) = Redirect u 301 \<and>
         serveMappers [\<lparr>Path = p, URL = u\<rparr>] fallback (r\<lparr>URLPath := q\<rparr>) = fallback (r\<lparr>URLPath := q\<rparr>) \<and>
         MapHandler [p \<mapsto> u] fallback (r\<lparr>URLPath := p\<rparr>) = Redirect u 301 \<and>
         MapHandler [p \<mapsto> u] fallback (r\<lparr>URLPath := q\<rparr>) = fallback (r\<lparr>URLPath := q\<rparr>)"
  using assms by (auto simp: MapHandler_def)

text \<open>A trailing slash, the case of a letter, an appended query string.\<close>

theorem exact_match_only_witness:
  "''/docs'' \<noteq> ''/docs/'' \<and>
   serveMappers [\<lparr>Path = ''/docs'', URL = ''https://example.com''\<rparr>] helloWorldHandler (get ''/docs'') =
     Redirect ''https://example.com'' 301 \<and>
   serveMappers [\<lparr>Path = ''/docs'', URL = ''https://example.com''\<rparr>] helloWorldHandler (get ''/docs/'') =
     helloWorldHandler (get ''/docs/'') \<and>
   ''/docs'' \<noteq> ''/Docs'' \<and>
   MapHandler [''/docs'' \<mapsto> ''https://example.com''] helloWorldHandler (get ''/Docs'') =
     helloWorldHandler (get ''/Docs'') \<and>
   ''/docs'' \<noteq> ''/docs?x=1'' \<and>
   MapHandler [''/docs'' \<mapsto> ''https://example.com''] helloWorldHandler (get ''/docs?x=1'') =
     helloWorldHandler (get ''/docs?x=1'')"
proof -
  have slash: "''/docs'' \<noteq> ''/docs/''" and letter: "''/docs'' \<noteq> ''/Docs''"
    and query: "''/docs'' \<noteq> ''/docs?x=1''"
    by simp_all
  show ?thesis
    using slash letter query
      exact_match_only [OF slash, of "''https://example.com''" helloWorldHandler "get ''/''"]
      exact_match_only [OF letter, of "''https://example.com''" helloWorldHandler "get ''/''"]
      exact_match_only [OF query, of "''https://example.com''" helloWorldHandler "get ''/''"]
    by (simp add: get_def)
qed

text \<open>
  \<^bold>\<open>C6.\<close> The layers are ordered: rule set in effect, then built-in map, then default
  greeting. With a rule set in effect (decoded from the YAML file, or from the JSON
  file when the YAML file could not be read), a request whose path has a rule is
  redirected to the URL of the first such rule, also when the built-in map has the
  same path; a request whose path has no rule but is one of the two built-in paths is
  redirected to the built-in URL. With no rule set, the built-in paths are redirected
  as well: the built-in map is always ahead of the greeting.
\<close>

theorem layering_order:
  "((ReadFile (PathToYAML config) = Inr data \<and> yamlUnmarshal data = (mappers, None)) \<or>
    (ReadFile (PathToYAML config) = Inl e \<and> ReadFile (PathToJSON config) = Inr data \<and>
     jsonUnmarshal data = (mappers, None)) \<longrightarrow>
      (mappers = before @ m # after \<and> (\<forall>m'\<in>set before. Path m' \<noteq> URLPath r) \<and>
       Path m = URLPath r \<longrightarrow>
         reply (main ReadFile yamlUnmarshal jsonUnmarshal ServeHTTP config) r = Some (Redirect (URL m) 301)) \<and>
      ((\<forall>m\<in>set mappers. Path m \<noteq> URLPath r) \<and> URLPath r = ''/urlshort-godoc'' \<longrightarrow>
         reply (main ReadFile yamlUnmarshal jsonUnmarshal ServeHTTP config) r =
           Some (Redirect ''https://godoc.org/github.com/gophercises/urlshort'' 301)) \<and>
      ((\<forall>m\<in>set mappers. Path m \<noteq> URLPath r) \<and> URLPath r = ''/yaml-godoc'' \<longrightarrow>
         reply (main ReadFile yamlUnmarshal jsonUnmarshal ServeHTTP config) r =
           Some (Redirect ''https://godoc.org/gopkg.in/yaml.v2'' 301))) \<and>
   (ReadFile (PathToYAML config) = Inl e \<and> ReadFile (PathToJSON config) = Inl e' \<longrightarrow>
      (URLPath r = ''/urlshort-godoc'' \<longrightarrow>
         reply (main ReadFile yamlUnmarshal jsonUnmarshal ServeHTTP config) r =
           Some (Redirect ''https://godoc.org/github.com/gophercises/urlshort'' 301)) \<and>
      (URLPath r = ''/yaml-godoc'' \<longrightarrow>
         reply (main ReadFile yamlUnmarshal jsonUnmarshal ServeHTTP config) r =
           Some (Redirect ''https://godoc.org/gopkg.in/yaml.v2'' 301)))"
proof (intro conjI impI)
  assume sel: "(ReadFile (PathToYAML config) = Inr data \<and> yamlUnmarshal data = (mappers, None)) \<or>
    (ReadFile (PathToYAML config) = Inl e \<and> ReadFile (PathToJSON config) = Inr data \<and>
     jsonUnmarshal data = (mappers, None))"
  then have composed: "reply (main ReadFile yamlUnmarshal jsonUnmarshal ServeHTTP config) r =
      Some (serveMappers mappers (makeMapHandler ServeHTTP makeDefaultMux) r)"
    by (rule reply_main_selected)
  {
    assume "mappers = before @ m # after \<and> (\<forall>m'\<in>set before. Path m' \<noteq> URLPath r) \<and>
            Path m = URLPath r"
    then show "reply (main ReadFile yamlUnmarshal jsonUnmarshal ServeHTTP config) r = Some (Redirect (URL m) 301)"
      by (simp add: composed serveMappers_first)
  next
    assume "(\<forall>m\<in>set mappers. Path m \<noteq> URLPath r) \<and> URLPath r = ''/urlshort-godoc''"
    then have "serveMappers mappers (makeMapHandler ServeHTTP makeDefaultMux) r = makeMapHandler ServeHTTP makeDefaultMux r"
      and "makeMapHandler ServeHTTP makeDefaultMux r =
           Redirect ''https://godoc.org/github.com/gophercises/urlshort'' 301"
      using serveMappers_none builtin_urlshort by blast+
    then show "reply (main ReadFile yamlUnmarshal jsonUnmarshal ServeHTTP config) r =
        Some (Redirect ''https://godoc.org/github.com/gophercises/urlshort'' 301)"
      by (simp only: composed)
  next
    assume "(\<forall>m\<in>set mappers. Path m \<noteq> URLPath r) \<and> URLPath r = ''/yaml-godoc''"
    then have "serveMappers mappers (makeMapHandler ServeHTTP makeDefaultMux) r = makeMapHandler ServeHTTP makeDefaultMux r"
      and "makeMapHandler ServeHTTP makeDefaultMux r = Redirect ''https://godoc.org/gopkg.in/yaml.v2'' 301"
      using serveMappers_none builtin_yaml by blast+
    then show "reply (main ReadFile yamlUnmarshal jsonUnmarshal ServeHTTP config) r =
        Some (Redirect ''https://godoc.org/gopkg.in/yaml.v2'' 301)"
      by (simp only: composed)
  }
next
  assume none: "ReadFile (PathToYAML config) = Inl e \<and> ReadFile (PathToJSON config) = Inl e'"
  {
    assume "URLPath r = ''/urlshort-godoc''"
    then show "reply (main ReadFile yamlUnmarshal jsonUnmarshal ServeHTTP config) r =
        Some (Redirect ''https://godoc.org/github.com/gophercises/urlshort'' 301)"
      using none by (simp add: reply_main_builtin builtin_urlshort)
  next
    assume "URLPath r = ''/yaml-godoc''"
    then show "reply (main ReadFile yamlUnmarshal jsonUnmarshal ServeHTTP config) r =
        Some (Redirect ''https://godoc.org/gopkg.in/yaml.v2'' 301)"
      using none by (simp add: reply_main_builtin builtin_yaml)
  }
qed

text \<open>The YAML payload that overrides \<^verbatim>\<open>/urlshort-godoc\<close>: the override wins for that
  path, the built-in entry for \<^verbatim>\<open>/yaml-godoc\<close> still answers, and without the payload
  the built-in entry for \<^verbatim>\<open>/urlshort-godoc\<close> answers.\<close>

theorem layering_order_witness:
  "sample_ReadFile ''override.yml'' = Inr override_yaml \<and>
   sample_yamlUnmarshal override_yaml =
     ([\<lparr>Path = ''/urlshort-godoc'', URL = ''https://override.example.com''\<rparr>], None) \<and>
   reply (main sample_ReadFile sample_yamlUnmarshal sample_jsonUnmarshal sample_ServeHTTP
            \<lparr>PathToYAML = ''override.yml'', PathToJSON = []\<rparr>) (get ''/urlshort-godoc'') =
     Some (Redirect ''https://override.example.com'' 301) \<and>
   reply (main sample_ReadFile sample_yamlUnmarshal sample_jsonUnmarshal sample_ServeHTTP
            \<lparr>PathToYAML = ''override.yml'', PathToJSON = []\<rparr>) (get ''/yaml-godoc'') =
     Some (Redirect ''https://godoc.org/gopkg.in/yaml.v2'' 301) \<and>
   reply (main sample_ReadFile sample_yamlUnmarshal sample_jsonUnmarshal sample_ServeHTTP
            \<lparr>PathToYAML = [], PathToJSON = []\<rparr>) (get ''/urlshort-godoc'') =
     Some (Redirect ''https://godoc.org/github.com/gophercises/urlshort'' 301)"
proof -
  let ?rule = "\<lparr>Path = ''/urlshort-godoc'', URL = ''https://override.example.com''\<rparr>"
  have present: "sample_ReadFile ''override.yml'' = Inr override_yaml"
    by (simp add: sample_ReadFile_def)
  have absent: "sample_ReadFile [] = Inl (Error ''no such file or directory'')"
    by (simp add: sample_ReadFile_def)
  have dec: "sample_yamlUnmarshal override_yaml = ([?rule], None)"
    by (simp add: sample_yamlUnmarshal_def)
  note hit = layering_order
    [where ReadFile = sample_ReadFile and yamlUnmarshal = sample_yamlUnmarshal
       and jsonUnmarshal = sample_jsonUnmarshal and ServeHTTP = sample_ServeHTTP and data = override_yaml
       and config = "\<lparr>PathToYAML = ''override.yml'', PathToJSON = []\<rparr>"
       and mappers = "[?rule]" and before = "[]" and m = ?rule and after = "[]"
       and r = "get ''/urlshort-godoc''"]
  note miss = layering_order
    [where ReadFile = sample_ReadFile and yamlUnmarshal = sample_yamlUnmarshal
       and jsonUnmarshal = sample_jsonUnmarshal and ServeHTTP = sample_ServeHTTP and data = override_yaml
       and config = "\<lparr>PathToYAML = ''override.yml'', PathToJSON = []\<rparr>"
       and mappers = "[?rule]" and r = "get ''/yaml-godoc''"]
  note bare = layering_order
    [where ReadFile = sample_ReadFile and yamlUnmarshal = sample_yamlUnmarshal
       and jsonUnmarshal = sample_jsonUnmarshal and ServeHTTP = sample_ServeHTTP
       and config = "\<lparr>PathToYAML = [], PathToJSON = []\<rparr>"
       and e = "Error ''no such file or directory''" and e' = "Error ''no such file or directory''"
       and r = "get ''/urlshort-godoc''"]
  have "reply (main sample_ReadFile sample_yamlUnmarshal sample_jsonUnmarshal sample_ServeHTTP
            \<lparr>PathToYAML = ''override.yml'', PathToJSON = []\<rparr>) (get ''/urlshort-godoc'') =
     Some (Redirect ''https://override.example.com'' 301)"
    using hit present dec by (simp add: get_def)
  moreover have "reply (main sample_ReadFile sample_yamlUnmarshal sample_jsonUnmarshal sample_ServeHTTP
            \<lparr>PathToYAML = ''override.yml'', PathToJSON = []\<rparr>) (get ''/yaml-godoc'') =
     Some (Redirect ''https://godoc.org/gopkg.in/yaml.v2'' 301)"
    using miss present dec by (simp add: get_def)
  moreover have "reply (main sample_ReadFile sample_yamlUnmarshal sample_jsonUnmarshal sample_ServeHTTP
            \<lparr>PathToYAML = [], PathToJSON = []\<rparr>) (get ''/urlshort-godoc'') =
     Some (Redirect ''https://godoc.org/github.com/gophercises/urlshort'' 301)"
    using bare absent by (simp add: get_def)
  ultimately show ?thesis using present dec by simp
qed

text \<open>
  \<^bold>\<open>C7.\<close> \<open>MapHandler\<close> has no error result: for every map and fallback it is a
  handler, and for every request it either finds the path in the map and redirects
  with 301 to the mapped URL, or does not find it and gives the fallback's answer.
  With neither file readable, a request for \<^verbatim>\<open>/yaml-godoc\<close> is redirected with 301 to
  \<^verbatim>\<open>https://godoc.org/gopkg.in/yaml.v2\<close>.
\<close>

theorem map_handler_total:
  "(pathsToUrls (URLPath r) = Some url \<longrightarrow> MapHandler pathsToUrls fallback r = Redirect url 301) \<and>
   (pathsToUrls (URLPath r) = None \<longrightarrow> MapHandler pathsToUrls fallback r = fallback r) \<and>
   (ReadFile (PathToYAML config) = Inl e \<and> ReadFile (PathToJSON config) = Inl e' \<and>
    URLPath r = ''/yaml-godoc'' \<longrightarrow>
      reply (main ReadFile yamlUnmarshal jsonUnmarshal ServeHTTP config) r =
        Some (Redirect ''https://godoc.org/gopkg.in/yaml.v2'' 301))"
  by (simp add: MapHandler_def reply_main_builtin builtin_yaml)

text \<open>A hit, a miss, the empty map, and the scenario.\<close>

theorem map_handler_total_witness:
  "MapHandler [''/a'' \<mapsto> ''https://a.example.com''] helloWorldHandler (get ''/a'') =
     Redirect ''https://a.example.com'' 301 \<and>
   MapHandler [''/a'' \<mapsto> ''https://a.example.com''] helloWorldHandler (get ''/b'') =
     helloWorldHandler (get ''/b'') \<and>
   MapHandler Map.empty helloWorldHandler (get ''/a'') = helloWorldHandler (get ''/a'') \<and>
   reply (main sample_ReadFile sample_yamlUnmarshal sample_jsonUnmarshal sample_ServeHTTP
            \<lparr>PathToYAML = [], PathToJSON = []\<rparr>) (get ''/yaml-godoc'') =
     Some (Redirect ''https://godoc.org/gopkg.in/yaml.v2'' 301)"
proof -
  have absent: "sample_ReadFile [] = Inl (Error ''no such file or directory'')"
    by (simp add: sample_ReadFile_def)
  note hit = map_handler_total
    [where pathsToUrls = "[''/a'' \<mapsto> ''https://a.example.com'']" and r = "get ''/a''"
       and url = "''https://a.example.com''" and fallback = helloWorldHandler]
  note miss = map_handler_total
    [where pathsToUrls = "[''/a'' \<mapsto> ''https://a.example.com'']" and r = "get ''/b''"
       and fallback = helloWorldHandler]
  note empty = map_handler_total
    [where pathsToUrls = Map.empty and r = "get ''/a''" and fallback = helloWorldHandler]
  note scenario = map_handler_total
    [where ReadFile = sample_ReadFile and yamlUnmarshal = sample_yamlUnmarshal
       and jsonUnmarshal = sample_jsonUnmarshal and ServeHTTP = sample_ServeHTTP
       and config = "\<lparr>PathToYAML = [], PathToJSON = []\<rparr>"
       and e = "Error ''no such file or directory''" and e' = "Error ''no such file or directory''"
       and r = "get ''/yaml-godoc''"]
  have "MapHandler [''/a'' \<mapsto> ''https://a.example.com''] helloWorldHandler (get ''/a'') =
     Redirect ''https://a.example.com'' 301"
    using hit by (simp add: get_def)
  moreover have "MapHandler [''/a'' \<mapsto> ''https://a.example.com''] helloWorldHandler (get ''/b'') =
     helloWorldHandler (get ''/b'')"
    using miss by (simp add: get_def)
  moreover have "MapHandler Map.empty helloWorldHandler (get ''/a'') = helloWorldHandler (get ''/a'')"
    using empty by simp
  moreover have "reply (main sample_ReadFile sample_yamlUnmarshal sample_jsonUnmarshal sample_ServeHTTP
            \<lparr>PathToYAML = [], PathToJSON = []\<rparr>) (get ''/yaml-godoc'') =
     Some (Redirect ''https://godoc.org/gopkg.in/yaml.v2'' 301)"
    using scenario absent by (simp add: get_def)
  ultimately show ?thesis by simp
qed




text \<open>
  As the claim has it, two requests with the same path get the same response from the
  composed handler, whatever else distinguishes them. The bottom of the composed
  handler is the multiplexer, and the multiplexer of \<^verbatim>\<open>net/http\<close> looks at more than the
  path: with no payload at all, three requests for \<^verbatim>\<open>//unknown\<close> get three answers, a
  redirect to \<^verbatim>\<open>/unknown\<close> for a GET, a redirect that carries the query for a GET with a
  query, and the greeting for a CONNECT, which is exempt from the cleaning.
\<close>

theorem reply_depends_on_path_only_counterexample:
  "URLPath \<lparr>Method = ''GET'', Host = ''localhost:8080'', URLPath = ''//unknown'', RawQuery = []\<rparr> =
   URLPath \<lparr>Method = ''CONNECT'', Host = ''localhost:8080'', URLPath = ''//unknown'', RawQuery = []\<rparr> \<and>
   reply (main sample_ReadFile sample_yamlUnmarshal sample_jsonUnmarshal sample_ServeHTTP
            \<lparr>PathToYAML = [], PathToJSON = []\<rparr>)
     \<lparr>Method = ''GET'', Host = ''localhost:8080'', URLPath = ''//unknown'', RawQuery = []\<rparr> \<noteq>
   reply (main sample_ReadFile sample_yamlUnmarshal sample_jsonUnmarshal sample_ServeHTTP
            \<lparr>PathToYAML = [], PathToJSON = []\<rparr>)
     \<lparr>Method = ''CONNECT'', Host = ''localhost:8080'', URLPath = ''//unknown'', RawQuery = []\<rparr> \<and>
   reply (main sample_ReadFile sample_yamlUnmarshal sample_jsonUnmarshal sample_ServeHTTP
            \<lparr>PathToYAML = [], PathToJSON = []\<rparr>)
     \<lparr>Method = ''GET'', Host = ''localhost:8080'', URLPath = ''//unknown'', RawQuery = []\<rparr> \<noteq>
   reply (main sample_ReadFile sample_yamlUnmarshal sample_jsonUnmarshal sample_ServeHTTP
            \<lparr>PathToYAML = [], PathToJSON = []\<rparr>)
     \<lparr>Method = ''GET'', Host = ''localhost:8080'', URLPath = ''//unknown'', RawQuery = ''a=1''\<rparr>"
proof -
  let ?get = "\<lparr>Method = ''GET'', Host = ''localhost:8080'', URLPath = ''//unknown'', RawQuery = []\<rparr>"
  let ?connect = "\<lparr>Method = ''CONNECT'', Host = ''localhost:8080'', URLPath = ''//unknown'', RawQuery = []\<rparr>"
  let ?query = "\<lparr>Method = ''GET'', Host = ''localhost:8080'', URLPath = ''//unknown'', RawQuery = ''a=1''\<rparr>"
  let ?main = "main sample_ReadFile sample_yamlUnmarshal sample_jsonUnmarshal sample_ServeHTTP
                 \<lparr>PathToYAML = [], PathToJSON = []\<rparr>"
  have absent: "sample_ReadFile [] = Inl (Error ''no such file or directory'')"
    by (simp add: sample_ReadFile_def)
  have clean: "cleanPath ''//unknown'' = ''/unknown''"
    by (simp add: cleanPath_def)
  have left: "reply ?main r = Some (sample_ServeHTTP makeDefaultMux r)" if "URLPath r = ''//unknown''" for r
  proof -
    have "makeMapHandler sample_ServeHTTP makeDefaultMux r = sample_ServeHTTP makeDefaultMux r"
      by (rule builtin_miss) (simp_all add: that)
    then show ?thesis using absent by (simp add: reply_main_builtin)
  qed
  have g: "reply ?main ?get = Some (Redirect ''/unknown'' 307)"
    by (simp add: left sample_ServeHTTP_def clean)
  have c: "reply ?main ?connect = Some (Write (''Hello, world!'' @ [CHR 0x0A]))"
    by (simp add: left sample_ServeHTTP_def makeDefaultMux_def HandleFunc_def NewServeMux_def
        helloWorldHandler_greeting)
  have q: "reply ?main ?query = Some (Redirect ''/unknown?a=1'' 307)"
    by (simp add: left sample_ServeHTTP_def clean)
  show ?thesis
    unfolding g c q by simp
qed

text \<open>
  \<^bold>\<open>C9\<close> (amended). The layers of the program decide by the configuration and the path
  of the request alone: for every file system, pair of decoders, dispatch and flags,
  two requests with the same path get the same reply from the running process (or
  none, when startup panicked), whatever their method, host and query are, unless both
  are left to the multiplexer; and they get the same reply there too whenever the
  multiplexer treats the two alike. The same holds of each layer on its own, over any
  fallback that looks at the path only.
\<close>

theorem same_path_same_reply_up_to_mux:
  assumes "URLPath r1 = URLPath r2"
  shows "(reply (main ReadFile yamlUnmarshal jsonUnmarshal ServeHTTP config) r1 =
          reply (main ReadFile yamlUnmarshal jsonUnmarshal ServeHTTP config) r2 \<or>
          (reply (main ReadFile yamlUnmarshal jsonUnmarshal ServeHTTP config) r1 =
             Some (ServeHTTP makeDefaultMux r1) \<and>
           reply (main ReadFile yamlUnmarshal jsonUnmarshal ServeHTTP config) r2 =
             Some (ServeHTTP makeDefaultMux r2))) \<and>
         (ServeHTTP makeDefaultMux r1 = ServeHTTP makeDefaultMux r2 \<longrightarrow>
            reply (main ReadFile yamlUnmarshal jsonUnmarshal ServeHTTP config) r1 =
            reply (main ReadFile yamlUnmarshal jsonUnmarshal ServeHTTP config) r2) \<and>
         ((\<forall>a b. URLPath a = URLPath b \<longrightarrow> fallback a = fallback b) \<longrightarrow>
            serveMappers mappers fallback r1 = serveMappers mappers fallback r2 \<and>
            MapHandler pathsToUrls fallback r1 = MapHandler pathsToUrls fallback r2)"
proof -
  let ?main = "main ReadFile yamlUnmarshal jsonUnmarshal ServeHTTP config"
  let ?builtin = "makeMapHandler ServeHTTP makeDefaultMux"
  have first: "reply ?main r1 = reply ?main r2 \<or>
      (reply ?main r1 = Some (ServeHTTP makeDefaultMux r1) \<and>
       reply ?main r2 = Some (ServeHTTP makeDefaultMux r2))"
    using reply_main_cases [of ReadFile yamlUnmarshal jsonUnmarshal ServeHTTP config]
  proof (elim disjE exE)
    fix err
    assume "?main = Panic err"
    then show ?thesis by simp
  next
    fix ms
    assume installed: "\<forall>r. reply ?main r = Some (serveMappers ms ?builtin r)"
    have a: "reply ?main r1 = Some (serveMappers ms ?builtin r1)"
      and b: "reply ?main r2 = Some (serveMappers ms ?builtin r2)"
      using installed by (rule spec)+
    show ?thesis
      using composed_same_or_mux [OF assms, of ms ServeHTTP]
      by (simp only: a b option.inject)
  qed
  have second: "reply ?main r1 = reply ?main r2"
    if alike: "ServeHTTP makeDefaultMux r1 = ServeHTTP makeDefaultMux r2"
    using first
  proof (elim disjE conjE)
    assume "reply ?main r1 = reply ?main r2"
    then show ?thesis .
  next
    assume a: "reply ?main r1 = Some (ServeHTTP makeDefaultMux r1)"
      and b: "reply ?main r2 = Some (ServeHTTP makeDefaultMux r2)"
    show ?thesis by (simp only: a b alike)
  qed
  have third: "serveMappers mappers fallback r1 = serveMappers mappers fallback r2 \<and>
      MapHandler pathsToUrls fallback r1 = MapHandler pathsToUrls fallback r2"
    if fb: "\<forall>a b. URLPath a = URLPath b \<longrightarrow> fallback a = fallback b"
  proof -
    have same: "fallback r1 = fallback r2"
      using fb [rule_format, OF assms] .
    have "serveMappers mappers fallback r1 = serveMappers mappers fallback r2"
      using assms same by (rule serveMappers_path_only)
    moreover have "MapHandler pathsToUrls fallback r1 = MapHandler pathsToUrls fallback r2"
      using assms same by (simp add: MapHandler_def split: option.splits)
    ultimately show ?thesis by simp
  qed
  show ?thesis
  proof (intro conjI impI)
    show "reply ?main r1 = reply ?main r2 \<or>
      (reply ?main r1 = Some (ServeHTTP makeDefaultMux r1) \<and>
       reply ?main r2 = Some (ServeHTTP makeDefaultMux r2))"
      by (rule first)
  next
    assume "ServeHTTP makeDefaultMux r1 = ServeHTTP makeDefaultMux r2"
    then show "reply ?main r1 = reply ?main r2" by (rule second)
  next
    assume fb: "\<forall>a b. URLPath a = URLPath b \<longrightarrow> fallback a = fallback b"
    show "serveMappers mappers fallback r1 = serveMappers mappers fallback r2"
      using third [OF fb] by (rule conjunct1)
    show "MapHandler pathsToUrls fallback r1 = MapHandler pathsToUrls fallback r2"
      using third [OF fb] by (rule conjunct2)
  qed
qed

text \<open>A GET with a query and a POST to another host, both for \<^verbatim>\<open>/unknown\<close>, which the
  sample dispatch hands to the default handler, and both for the overridden path.\<close>

theorem same_path_same_reply_up_to_mux_witness:
  "URLPath \<lparr>Method = ''GET'', Host = ''localhost:8080'', URLPath = ''/unknown'', RawQuery = ''a=1''\<rparr> =
   URLPath \<lparr>Method = ''POST'', Host = ''example.com'', URLPath = ''/unknown'', RawQuery = []\<rparr> \<and>
   sample_ServeHTTP makeDefaultMux
     \<lparr>Method = ''GET'', Host = ''localhost:8080'', URLPath = ''/unknown'', RawQuery = ''a=1''\<rparr> =
   sample_ServeHTTP makeDefaultMux
     \<lparr>Method = ''POST'', Host = ''example.com'', URLPath = ''/unknown'', RawQuery = []\<rparr> \<and>
   reply (main sample_ReadFile sample_yamlUnmarshal sample_jsonUnmarshal sample_ServeHTTP
            \<lparr>PathToYAML = ''override.yml'', PathToJSON = []\<rparr>)
     \<lparr>Method = ''GET'', Host = ''localhost:8080'', URLPath = ''/unknown'', RawQuery = ''a=1''\<rparr> =
   reply (main sample_ReadFile sample_yamlUnmarshal sample_jsonUnmarshal sample_ServeHTTP
            \<lparr>PathToYAML = ''override.yml'', PathToJSON = []\<rparr>)
     \<lparr>Method = ''POST'', Host = ''example.com'', URLPath = ''/unknown'', RawQuery = []\<rparr> \<and>
   serveMappers [\<lparr>Path = ''/a'', URL = ''https://first.example.com''\<rparr>] helloWorldHandler
     \<lparr>Method = ''GET'', Host = ''localhost:8080'', URLPath = ''/unknown'', RawQuery = ''a=1''\<rparr> =
   serveMappers [\<lparr>Path = ''/a'', URL = ''https://first.example.com''\<rparr>] helloWorldHandler
     \<lparr>Method = ''POST'', Host = ''example.com'', URLPath = ''/unknown'', RawQuery = []\<rparr>"
proof -
  let ?r1 = "\<lparr>Method = ''GET'', Host = ''localhost:8080'', URLPath = ''/unknown'', RawQuery = ''a=1''\<rparr>"
  let ?r2 = "\<lparr>Method = ''POST'', Host = ''example.com'', URLPath = ''/unknown'', RawQuery = []\<rparr>"
  have same: "URLPath ?r1 = URLPath ?r2" by simp
  have clean: "cleanPath ''/unknown'' = ''/unknown''"
    by (simp add: cleanPath_def)
  have "sample_ServeHTTP makeDefaultMux ?r1 = helloWorldHandler ?r1"
    and "sample_ServeHTTP makeDefaultMux ?r2 = helloWorldHandler ?r2"
    using clean by (simp_all add: sample_ServeHTTP_clean)
  then have mux: "sample_ServeHTTP makeDefaultMux ?r1 = sample_ServeHTTP makeDefaultMux ?r2"
    by (simp add: helloWorldHandler_greeting)
  have fb: "\<forall>a b. URLPath a = URLPath b \<longrightarrow> helloWorldHandler a = helloWorldHandler b"
    by (simp add: helloWorldHandler_greeting)
  note inst = same_path_same_reply_up_to_mux
    [OF same, where ReadFile = sample_ReadFile and yamlUnmarshal = sample_yamlUnmarshal
       and jsonUnmarshal = sample_jsonUnmarshal and ServeHTTP = sample_ServeHTTP
       and config = "\<lparr>PathToYAML = ''override.yml'', PathToJSON = []\<rparr>"
       and fallback = helloWorldHandler
       and mappers = "[\<lparr>Path = ''/a'', URL = ''https://first.example.com''\<rparr>]"]
  note composed = inst [THEN conjunct2, THEN conjunct1, THEN mp, OF mux]
  note layer = inst [THEN conjunct2, THEN conjunct2, THEN mp, OF fb, THEN conjunct1]
  show ?thesis
    by (intro conjI) (rule same, rule mux, rule composed, rule layer)
qed

end
